theory Spec2Isabelle
  imports Complex_Main "HOL-Library.Monad_Syntax"
begin

section \<open>NumPy values and arrays\<close>

text \<open>
  The notebooks compute with NumPy \<open>float64\<close> arrays. A finite \<open>float64\<close> is read as the
  real number it stands for, and the arithmetic on finite values is the arithmetic of the
  reals: rounding, overflow and underflow are outside the model. NumPy does not raise on
  \<open>log\<close> of a non-positive number or on a division by zero; it returns \<open>-inf\<close>, \<open>inf\<close> or
  \<open>nan\<close>. Such a non-finite entry is \<open>None\<close>, a finite one is \<open>Some r\<close>. Every operation that
  the functions below apply to a non-finite value (addition, subtraction, multiplication by
  a non-zero constant, summation) has a non-finite result, so \<open>None\<close> is propagated.

  A one-dimensional array is a list, a two-dimensional array is the list of its rows.
  The only exception that the modelled code can raise is the \<open>ValueError\<close> of
  broadcasting two arrays of incompatible shapes.
\<close>

type_synonym npfloat = "real option"

datatype error = ValueError

definition np_log :: "real \<Rightarrow> npfloat" where
  "np_log x = (if 0 < x then Some (ln x) else None)"

definition np_div :: "real \<Rightarrow> real \<Rightarrow> npfloat" where
  "np_div x y = (if y = 0 then None else Some (x / y))"

definition fadd :: "npfloat \<Rightarrow> npfloat \<Rightarrow> npfloat" where
  "fadd a b = do { x \<leftarrow> a; y \<leftarrow> b; Some (x + y) }"

text \<open>
  Broadcasting of two one-dimensional arrays under an elementwise operation: equal lengths
  pair up, an array of length one is stretched, anything else raises.
\<close>

definition broadcast :: "('a \<Rightarrow> 'b \<Rightarrow> 'c) \<Rightarrow> 'a list \<Rightarrow> 'b list \<Rightarrow> error + 'c list" where
  "broadcast f xs ys =
     (if length xs = length ys then Inr (map2 f xs ys)
      else if length xs = 1 then Inr (map (f (hd xs)) ys)
      else if length ys = 1 then Inr (map (\<lambda>x. f x (hd ys)) xs)
      else Inl ValueError)"

section \<open>The analytic model of the flow notebook\<close>

text \<open>
  \<^verbatim>\<open>
  def log_gauss(x, mu, sigma):
      return -0.5 * np.log(2 * np.pi * sigma) - 0.5 * (x - mu)**2 / sigma**2
  \<close>
\<close>

definition log_gauss :: "real \<Rightarrow> real \<Rightarrow> real \<Rightarrow> npfloat" where
  "log_gauss x mu sigma =
     do { a \<leftarrow> np_log (2 * pi * sigma);
          b \<leftarrow> np_div (0.5 * (x - mu)\<^sup>2) (sigma\<^sup>2);
          Some (- 0.5 * a - b) }"

text \<open>\<^verbatim>\<open>np.arange(1, 6)**2\<close>\<close>

definition squares :: "real list" where
  "squares = map (\<lambda>k. (real k)\<^sup>2) [1..<6]"

text \<open>
  \<^verbatim>\<open>d - mu\<close> for a one-dimensional \<open>d\<close> and the matrix \<open>mu\<close>, whose rows have one
  entry for each of the five squares.
\<close>

definition d_minus_mu :: "real list \<Rightarrow> real list list \<Rightarrow> error + real list list" where
  "d_minus_mu d mu =
     (if length d = length squares then Inr (map (\<lambda>row. map2 (-) d row) mu)
      else if length d = 1 then Inr (map (map (\<lambda>v. hd d - v)) mu)
      else Inl ValueError)"

text \<open>
  \<^verbatim>\<open>
  def analytic_log_likelihood(d, mu_0, sigma_0):
      mu = (np.arange(1, 6)**2).reshape(1, -1) * mu_0.reshape(-1, 1)
      cov = (np.arange(1, 6)**2).reshape(1, -1) * sigma_0.reshape(-1, 1)**2
      c = -2.5 * np.log(2 * np.pi) - 0.5 * np.log(np.prod(cov, axis = -1))
      l = -0.5 * np.sum((d - mu)**2 / cov, axis = -1)
      return c + l
  \<close>
  \<open>d\<close>, \<open>mu_0\<close> and \<open>sigma_0\<close> are one-dimensional arrays of finite values.
\<close>

definition analytic_log_likelihood ::
  "real list \<Rightarrow> real list \<Rightarrow> real list \<Rightarrow> error + npfloat list" where
  "analytic_log_likelihood d mu_0 sigma_0 =
     (let mu = map (\<lambda>m. map (\<lambda>k. k * m) squares) mu_0;
          cov = map (\<lambda>s. map (\<lambda>k. k * s\<^sup>2) squares) sigma_0;
          c = map (\<lambda>row. do { a \<leftarrow> np_log (2 * pi);
                              b \<leftarrow> np_log (prod_list row);
                              Some (- 2.5 * a - 0.5 * b) }) cov
      in case d_minus_mu d mu of
           Inl e \<Rightarrow> Inl e
         | Inr diff \<Rightarrow>
             (case broadcast (map2 np_div) (map (map (\<lambda>v. v\<^sup>2)) diff) cov of
                Inl e \<Rightarrow> Inl e
              | Inr q \<Rightarrow>
                  (let l = map (\<lambda>row. do { s \<leftarrow> those row; Some (- 0.5 * sum_list s) }) q
                   in broadcast fadd c l)))"

text \<open>
  A list comprehension whose body may raise: the first exception ends it.
\<close>

fun sequence_err :: "(error + 'a) list \<Rightarrow> error + 'a list" where
  "sequence_err [] = Inr []"
| "sequence_err (x # xs) =
     (case x of
        Inl e \<Rightarrow> Inl e
      | Inr v \<Rightarrow> (case sequence_err xs of Inl e \<Rightarrow> Inl e | Inr vs \<Rightarrow> Inr (v # vs)))"

text \<open>
  \<^verbatim>\<open>np.sum(np.array(rows), axis = 0)\<close>. Rows of unequal lengths do not form an array.
  Of no rows at all the sum is the scalar \<open>0.0\<close>, which broadcasts as an array of length
  one does.
\<close>

definition sum_axis0 :: "npfloat list list \<Rightarrow> error + npfloat list" where
  "sum_axis0 rows =
     (case rows of
        [] \<Rightarrow> Inr [Some 0]
      | r # rs \<Rightarrow>
          if list_all (\<lambda>r'. length r' = length r) rs then Inr (foldl (map2 fadd) r rs)
          else Inl ValueError)"

text \<open>
  \<^verbatim>\<open>
  def ultranest_NDE_posterior(p):
      likelihood = np.sum(np.array([NDE.log_prob(mock, p).numpy() for mock in mock_measurement]), axis = 0)
      prior = log_gauss(0.0, p[:, 0], 1.0)
      return prior + likelihood

  def ultranest_analytic_posterior(p):
      likelihood = np.sum(np.array([analytic_log_likelihood(mock, p[:, 0], p[:, 1]) for mock in mock_measurement]), axis = 0)
      prior = log_gauss(0.0, p[:, 0], 1.0)
      return prior + likelihood
  \<close>
  \<open>p\<close> has one row \<open>(mu_0, sigma_0)\<close> for each point that the sampler proposes. The global
  \<open>mock_measurement\<close> is a parameter, and so is \<open>NDE.log_prob\<close>, the trained flow of an
  external library. The value of the local variable \<open>likelihood\<close> has a definition of its own.
\<close>

definition NDE_likelihood ::
  "(real list \<Rightarrow> (real \<times> real) list \<Rightarrow> error + npfloat list) \<Rightarrow>
   real list list \<Rightarrow> (real \<times> real) list \<Rightarrow> error + npfloat list" where
  "NDE_likelihood log_prob mock_measurement p =
     (case sequence_err (map (\<lambda>mock. log_prob mock p) mock_measurement) of
        Inl e \<Rightarrow> Inl e
      | Inr rows \<Rightarrow> sum_axis0 rows)"

definition ultranest_NDE_posterior ::
  "(real list \<Rightarrow> (real \<times> real) list \<Rightarrow> error + npfloat list) \<Rightarrow>
   real list list \<Rightarrow> (real \<times> real) list \<Rightarrow> error + npfloat list" where
  "ultranest_NDE_posterior log_prob mock_measurement p =
     (case NDE_likelihood log_prob mock_measurement p of
        Inl e \<Rightarrow> Inl e
      | Inr likelihood \<Rightarrow>
          (let prior = map (\<lambda>mu. log_gauss 0 mu 1) (map fst p)
           in broadcast fadd prior likelihood))"

definition analytic_likelihood ::
  "real list list \<Rightarrow> (real \<times> real) list \<Rightarrow> error + npfloat list" where
  "analytic_likelihood mock_measurement p =
     (case sequence_err
             (map (\<lambda>mock. analytic_log_likelihood mock (map fst p) (map snd p))
                mock_measurement) of
        Inl e \<Rightarrow> Inl e
      | Inr rows \<Rightarrow> sum_axis0 rows)"

definition ultranest_analytic_posterior ::
  "real list list \<Rightarrow> (real \<times> real) list \<Rightarrow> error + npfloat list" where
  "ultranest_analytic_posterior mock_measurement p =
     (case analytic_likelihood mock_measurement p of
        Inl e \<Rightarrow> Inl e
      | Inr likelihood \<Rightarrow>
          (let prior = map (\<lambda>mu. log_gauss 0 mu 1) (map fst p)
           in broadcast fadd prior likelihood))"

section \<open>The posterior of the kernel density notebook\<close>

text \<open>
  \<^verbatim>\<open>
  def log_prior(y):
      l = -y**2 / 4
      return l.flatten()
  \<close>
  \<open>y\<close> is a two-dimensional array, the list of its rows.
\<close>

definition log_prior :: "real list list \<Rightarrow> real list" where
  "log_prior y = concat (map (map (\<lambda>v. - v\<^sup>2 / 4)) y)"

text \<open>
  \<^verbatim>\<open>
  def log_likelihood(y, x = 1.0):
      N = len(y)
      total = np.stack([np.ones(N) * x, y.flatten()], axis = -1)
      log_probs = kde.score_samples(total, conditional_features = ["y"])
      return log_probs.flatten()
  \<close>
  \<open>kde\<close> is the fitted estimator of the external library \<open>conditional_kde\<close>; its method
  \<open>score_samples\<close> is a parameter, returning a one-dimensional array or raising.
  \<open>np.stack\<close> raises unless its arrays have one shape.
\<close>

definition log_likelihood ::
  "(real list list \<Rightarrow> string list \<Rightarrow> error + npfloat list) \<Rightarrow>
   real list list \<Rightarrow> real \<Rightarrow> error + npfloat list" where
  "log_likelihood score_samples y x =
     (let N = length y;
          xs = map (\<lambda>one. one * x) (replicate N 1);
          ys = concat y
      in if length xs = length ys
         then score_samples (map2 (\<lambda>u v. [u, v]) xs ys) [''y'']
         else Inl ValueError)"

text \<open>
  \<^verbatim>\<open>
  def total_distribution(y):
      return log_prior(y) + log_likelihood(y)
  \<close>
\<close>

definition total_distribution ::
  "(real list list \<Rightarrow> string list \<Rightarrow> error + npfloat list) \<Rightarrow>
   real list list \<Rightarrow> error + npfloat list" where
  "total_distribution score_samples y =
     (let prior = map Some (log_prior y)
      in case log_likelihood score_samples y 1 of
           Inl e \<Rightarrow> Inl e
         | Inr likelihood \<Rightarrow> broadcast fadd prior likelihood)"

section \<open>Gaussian densities\<close>

text \<open>
  The density of the normal distribution with mean \<open>mu\<close> and standard deviation \<open>sigma\<close>,
  and the density of the multivariate normal distribution whose covariance matrix is
  diagonal, with the variances \<open>var\<close> on the diagonal. The code is compared with their
  logarithms.
\<close>

definition normal_density :: "real \<Rightarrow> real \<Rightarrow> real \<Rightarrow> real" where
  "normal_density mu sigma x = exp (- (x - mu)\<^sup>2 / (2 * sigma\<^sup>2)) / sqrt (2 * pi * sigma\<^sup>2)"

definition normal_log_density :: "real \<Rightarrow> real \<Rightarrow> real \<Rightarrow> real" where
  "normal_log_density mu sigma x = ln (normal_density mu sigma x)"

definition gaussian_diag_density :: "real list \<Rightarrow> real list \<Rightarrow> real list \<Rightarrow> real" where
  "gaussian_diag_density mean var x =
     exp (- (\<Sum>k<length x. (x ! k - mean ! k)\<^sup>2 / var ! k) / 2)
       / sqrt ((2 * pi) ^ length x * prod_list var)"

definition gaussian_diag_log_density :: "real list \<Rightarrow> real list \<Rightarrow> real list \<Rightarrow> real" where
  "gaussian_diag_log_density mean var x = ln (gaussian_diag_density mean var x)"

section \<open>Auxiliary facts\<close>

lemma normal_log_density_eq:
  assumes "0 < sigma"
  shows "normal_log_density mu sigma x =
           - (1 / 2) * ln (2 * pi * sigma\<^sup>2) - (1 / 2) * (x - mu)\<^sup>2 / sigma\<^sup>2"
proof -
  have pos: "0 < 2 * pi * sigma\<^sup>2" using assms by simp
  have "normal_log_density mu sigma x =
          ln (exp (- (x - mu)\<^sup>2 / (2 * sigma\<^sup>2))) - ln (sqrt (2 * pi * sigma\<^sup>2))"
    unfolding normal_log_density_def normal_density_def
    using pos by (simp add: ln_divide_pos)
  also have "\<dots> = - (x - mu)\<^sup>2 / (2 * sigma\<^sup>2) - ln (2 * pi * sigma\<^sup>2) / 2"
    using pos by (simp add: ln_sqrt)
  finally show ?thesis by simp
qed

lemma log_gauss_eq:
  assumes "0 < sigma"
  shows "log_gauss x mu sigma =
           Some (- (1 / 2) * ln (2 * pi * sigma) - (1 / 2) * (x - mu)\<^sup>2 / sigma\<^sup>2)"
  using assms by (simp add: log_gauss_def np_log_def np_div_def)

lemma sigma_sq_iff:
  fixes sigma :: real
  assumes "0 < sigma"
  shows "(ln (2 * pi * sigma) = ln (2 * pi * sigma\<^sup>2)) = (sigma = 1)"
proof -
  have "(ln (2 * pi * sigma) = ln (2 * pi * sigma\<^sup>2)) = (2 * pi * sigma = 2 * pi * sigma\<^sup>2)"
    using assms by (intro ln_inj_iff) simp_all
  also have "\<dots> = (sigma = sigma\<^sup>2)" by simp
  also have "\<dots> = (sigma = 1)" using assms by (simp add: power2_eq_square)
  finally show ?thesis .
qed

lemma log_gauss_normal_iff:
  assumes "0 < sigma"
  shows "(log_gauss x mu sigma = Some (normal_log_density mu sigma x)) = (sigma = 1)"
  using sigma_sq_iff[OF assms]
  by (simp add: log_gauss_eq[OF assms] normal_log_density_eq[OF assms])

lemma log_gauss_unit: "log_gauss x mu 1 = Some (normal_log_density mu 1 x)"
  using log_gauss_normal_iff[of 1 x mu] by simp

lemma squares_eq: "squares = [1, 4, 9, 16, 25]"
proof -
  have "[1..<6] = [1, 2, 3, 4, 5::nat]" by (simp add: upt_rec)
  then show ?thesis by (simp add: squares_def)
qed

lemma sum_1_5: "(\<Sum>k = 1..5. f k) = f 1 + f 2 + f 3 + f 4 + (f (5::nat) :: real)"
proof -
  have "{1..5::nat} = {1, 2, 3, 4, 5}" by auto
  then show ?thesis by simp
qed

lemma sum_lt_5: "(\<Sum>k<5. f k) = f 0 + f 1 + f 2 + f 3 + (f (4::nat) :: real)"
proof -
  have "{..<5::nat} = {0, 1, 2, 3, 4}" by auto
  then show ?thesis by simp
qed

lemma length_5E:
  assumes "length d = 5"
  obtains d0 d1 d2 d3 d4 where "d = [d0, d1, d2, d3, d4]"
proof -
  from assms have "length d = Suc (Suc (Suc (Suc (Suc 0))))" by simp
  then show ?thesis
    by (auto simp: length_Suc_conv intro: that)
qed

lemma all_rows:
  assumes "length d = 5" and "length mu_0 = length sigma_0"
  shows "\<exists>r. analytic_log_likelihood d mu_0 sigma_0 = Inr r \<and> length r = length sigma_0 \<and>
    (\<forall>i<length sigma_0. r ! i =
       fadd (do { a \<leftarrow> np_log (2 * pi);
                  b \<leftarrow> np_log (prod_list (map (\<lambda>k. k * (sigma_0 ! i)\<^sup>2) squares));
                  Some (- 2.5 * a - 0.5 * b) })
            (do { s \<leftarrow> those (map2 np_div
                                (map (\<lambda>v. v\<^sup>2) (map2 (-) d (map (\<lambda>k. k * mu_0 ! i) squares)))
                                (map (\<lambda>k. k * (sigma_0 ! i)\<^sup>2) squares));
                  Some (- 0.5 * sum_list s) }))"
proof -
  have len: "length d = length squares" using assms(1) by (simp add: squares_eq)
  show ?thesis
    unfolding analytic_log_likelihood_def d_minus_mu_def broadcast_def Let_def
    using len assms(2) by simp
qed


lemma prod_list_pos: "(\<forall>v\<in>set xs. (0::real) < v) \<Longrightarrow> 0 < prod_list xs"
  by (induction xs) simp_all

lemma ln_prod_list: "(\<forall>v\<in>set xs. (0::real) < v) \<Longrightarrow> ln (prod_list xs) = sum_list (map ln xs)"
  by (induction xs) (simp_all add: ln_mult_pos prod_list_pos)

lemma those_map2_np_div:
  "length xs = length ys \<Longrightarrow> (\<forall>v\<in>set ys. v \<noteq> 0) \<Longrightarrow>
     those (map2 np_div xs ys) = Some (map2 (/) xs ys)"
  by (induction xs ys rule: list_induct2) (simp_all add: np_div_def)

lemma c_value:
  assumes "s \<noteq> 0"
  shows "do { a \<leftarrow> np_log (2 * pi);
              b \<leftarrow> np_log (prod_list (map (\<lambda>k. k * s\<^sup>2) squares));
              Some (- 2.5 * a - 0.5 * b) } =
         Some (- (5 / 2) * ln (2 * pi) - (1 / 2) * (\<Sum>k = 1..5. ln ((real k)\<^sup>2 * s\<^sup>2)))"
proof -
  have pos: "\<forall>v\<in>set (map (\<lambda>k. k * s\<^sup>2) squares). 0 < v"
    using assms by (simp add: squares_eq)
  have "np_log (prod_list (map (\<lambda>k. k * s\<^sup>2) squares)) =
          Some (sum_list (map ln (map (\<lambda>k. k * s\<^sup>2) squares)))"
    using prod_list_pos[OF pos] ln_prod_list[OF pos] by (simp add: np_log_def)
  moreover have "sum_list (map ln (map (\<lambda>k. k * s\<^sup>2) squares)) =
          (\<Sum>k = 1..5. ln ((real k)\<^sup>2 * s\<^sup>2))"
    unfolding sum_1_5 by (simp add: squares_eq)
  ultimately show ?thesis by (simp add: np_log_def)
qed

lemma l_value:
  assumes "s \<noteq> 0" and "length d = 5"
  shows "do { q \<leftarrow> those (map2 np_div
                        (map (\<lambda>v. v\<^sup>2) (map2 (-) d (map (\<lambda>k. k * m) squares)))
                        (map (\<lambda>k. k * s\<^sup>2) squares));
              Some (- 0.5 * sum_list q) } =
         Some (- (1 / 2) * (\<Sum>k = 1..5. (d ! (k - 1) - (real k)\<^sup>2 * m)\<^sup>2 / ((real k)\<^sup>2 * s\<^sup>2)))"
proof -
  from assms(2) obtain d0 d1 d2 d3 d4 where d: "d = [d0, d1, d2, d3, d4]"
    by (rule length_5E)
  have nz: "\<forall>v\<in>set (map (\<lambda>k. k * s\<^sup>2) squares). v \<noteq> 0"
    using assms(1) by (simp add: squares_eq)
  have len: "length (map (\<lambda>v. v\<^sup>2) (map2 (-) d (map (\<lambda>k. k * m) squares))) =
             length (map (\<lambda>k. k * s\<^sup>2) squares)"
    by (simp add: d squares_eq)
  have "sum_list (map2 (/) (map (\<lambda>v. v\<^sup>2) (map2 (-) d (map (\<lambda>k. k * m) squares)))
                          (map (\<lambda>k. k * s\<^sup>2) squares)) =
        (\<Sum>k = 1..5. (d ! (k - 1) - (real k)\<^sup>2 * m)\<^sup>2 / ((real k)\<^sup>2 * s\<^sup>2))"
    unfolding sum_1_5 by (simp add: d squares_eq)
  then show ?thesis
    unfolding those_map2_np_div[OF len nz] by simp
qed

lemma gaussian_diag_log_density_eq:
  assumes "\<forall>v\<in>set var. 0 < v"
  shows "gaussian_diag_log_density mean var x =
           - (real (length x) / 2) * ln (2 * pi) - (1 / 2) * sum_list (map ln var)
           - (1 / 2) * (\<Sum>k<length x. (x ! k - mean ! k)\<^sup>2 / var ! k)"
proof -
  have p: "0 < prod_list var" using assms by (rule prod_list_pos)
  have q: "0 < (2 * pi) ^ length x" by simp
  have pq: "0 < (2 * pi) ^ length x * prod_list var" using p q by simp
  have "gaussian_diag_log_density mean var x =
          - (\<Sum>k<length x. (x ! k - mean ! k)\<^sup>2 / var ! k) / 2
          - ln (sqrt ((2 * pi) ^ length x * prod_list var))"
    unfolding gaussian_diag_log_density_def gaussian_diag_density_def
    using pq by (simp add: ln_divide_pos)
  also have "ln (sqrt ((2 * pi) ^ length x * prod_list var)) =
          (ln ((2 * pi) ^ length x) + ln (prod_list var)) / 2"
    using p q pq by (simp add: ln_sqrt ln_mult_pos)
  also have "ln ((2 * pi) ^ length x) = real (length x) * ln (2 * pi)"
    by (rule ln_realpow)
  also have "ln (prod_list var) = sum_list (map ln var)"
    using assms by (rule ln_prod_list)
  finally show ?thesis by (simp add: field_simps)
qed

lemma concat_singletons:
  "\<forall>row\<in>set y. length row = 1 \<Longrightarrow> concat (map (map f) y) = map (\<lambda>row. f (row ! 0)) y"
proof (induction y)
  case Nil
  then show ?case by simp
next
  case (Cons row y)
  then have "length row = 1" by simp
  then obtain a where "row = [a]" by (cases row) simp_all
  with Cons show ?case by simp
qed

lemma concat_singletons_id:
  "\<forall>row\<in>set y. length row = 1 \<Longrightarrow> concat y = map (\<lambda>row. row ! 0) y"
  using concat_singletons[of y "\<lambda>v. v"] by simp

lemma map2_replicate:
  "length ys = n \<Longrightarrow> map2 f (replicate n a) ys = map (f a) ys"
  by (induction ys arbitrary: n) auto

lemma log_likelihood_column:
  assumes "\<forall>row\<in>set y. length row = 1"
  shows "log_likelihood score_samples y x = score_samples (map (\<lambda>row. [x, row ! 0]) y) [''y'']"
proof -
  have c: "concat y = map (\<lambda>row. row ! 0) y" using assms by (rule concat_singletons_id)
  have "map2 (\<lambda>u v. [u, v]) (replicate (length y) x) (map (\<lambda>row. row ! 0) y) =
          map (\<lambda>row. [x, row ! 0]) y"
    by (simp add: map2_replicate o_def)
  then show ?thesis
    by (simp add: log_likelihood_def c)
qed

lemma ln_4pi_pos: "0 < ln (4 * pi)"
proof -
  have "(1::real) < 4 * pi" using pi_ge_two by simp
  then show ?thesis by simp
qed

section \<open>The analytic likelihood\<close>

text \<open>
  Claim C8. For a data vector \<open>d\<close> of five entries and parameter arrays \<open>mu_0\<close>, \<open>sigma_0\<close> of
  one length, \<open>analytic_log_likelihood d mu_0 sigma_0\<close> returns an array of that length, and
  wherever \<open>sigma_0 ! i\<close> is not zero its entry \<open>i\<close> is the finite value
  \<open>-(5/2) ln (2 pi) - (1/2) (\<Sum>k=1..5. ln (k\<^sup>2 s\<^sup>2)) - (1/2) (\<Sum>k=1..5. (d\<^sub>k - k\<^sup>2 m)\<^sup>2 / (k\<^sup>2 s\<^sup>2))\<close>
  for \<open>m = mu_0 ! i\<close> and \<open>s = sigma_0 ! i\<close>: the logarithm of the density, at \<open>d\<close>, of the
  five-dimensional Gaussian with mean \<open>(1, 4, 9, 16, 25) m\<close> and the diagonal covariance
  matrix \<open>diag (1, 4, 9, 16, 25) s\<^sup>2\<close>.
\<close>

theorem analytic_log_likelihood_gaussian:
  assumes "length d = 5" and "length mu_0 = length sigma_0"
    and "i < length sigma_0" and "sigma_0 ! i \<noteq> 0"
  shows "\<exists>r. analytic_log_likelihood d mu_0 sigma_0 = Inr r \<and> length r = length sigma_0 \<and>
           r ! i = Some (- (5 / 2) * ln (2 * pi)
                         - (1 / 2) * (\<Sum>k = 1..5. ln ((real k)\<^sup>2 * (sigma_0 ! i)\<^sup>2))
                         - (1 / 2) * (\<Sum>k = 1..5. (d ! (k - 1) - (real k)\<^sup>2 * mu_0 ! i)\<^sup>2
                                                       / ((real k)\<^sup>2 * (sigma_0 ! i)\<^sup>2))) \<and>
           r ! i = Some (gaussian_diag_log_density
                           (map (\<lambda>k. k * mu_0 ! i) [1, 4, 9, 16, 25])
                           (map (\<lambda>k. k * (sigma_0 ! i)\<^sup>2) [1, 4, 9, 16, 25]) d)"
proof -
  from all_rows[OF assms(1,2)] obtain r where
    r: "analytic_log_likelihood d mu_0 sigma_0 = Inr r" and len: "length r = length sigma_0"
    and nth: "\<forall>i<length sigma_0. r ! i =
       fadd (do { a \<leftarrow> np_log (2 * pi);
                  b \<leftarrow> np_log (prod_list (map (\<lambda>k. k * (sigma_0 ! i)\<^sup>2) squares));
                  Some (- 2.5 * a - 0.5 * b) })
            (do { s \<leftarrow> those (map2 np_div
                                (map (\<lambda>v. v\<^sup>2) (map2 (-) d (map (\<lambda>k. k * mu_0 ! i) squares)))
                                (map (\<lambda>k. k * (sigma_0 ! i)\<^sup>2) squares));
                  Some (- 0.5 * sum_list s) })"
    by blast
  let ?s = "sigma_0 ! i" and ?m = "mu_0 ! i"
  let ?f = "- (5 / 2) * ln (2 * pi)
              - (1 / 2) * (\<Sum>k = 1..5. ln ((real k)\<^sup>2 * ?s\<^sup>2))
              - (1 / 2) * (\<Sum>k = 1..5. (d ! (k - 1) - (real k)\<^sup>2 * ?m)\<^sup>2 / ((real k)\<^sup>2 * ?s\<^sup>2))"
  from nth assms(3) have "r ! i =
       fadd (do { a \<leftarrow> np_log (2 * pi);
                  b \<leftarrow> np_log (prod_list (map (\<lambda>k. k * ?s\<^sup>2) squares));
                  Some (- 2.5 * a - 0.5 * b) })
            (do { s \<leftarrow> those (map2 np_div
                                (map (\<lambda>v. v\<^sup>2) (map2 (-) d (map (\<lambda>k. k * ?m) squares)))
                                (map (\<lambda>k. k * ?s\<^sup>2) squares));
                  Some (- 0.5 * sum_list s) })"
    by blast
  then have val: "r ! i = Some ?f"
    unfolding c_value[OF assms(4)] l_value[OF assms(4) assms(1)] by (simp add: fadd_def)
  have pos: "\<forall>v\<in>set (map (\<lambda>k. k * ?s\<^sup>2) [1, 4, 9, 16, 25]). 0 < v"
    using assms(4) by simp
  from assms(1) obtain d0 d1 d2 d3 d4 where d: "d = [d0, d1, d2, d3, d4]"
    by (rule length_5E)
  have "gaussian_diag_log_density (map (\<lambda>k. k * ?m) [1, 4, 9, 16, 25])
          (map (\<lambda>k. k * ?s\<^sup>2) [1, 4, 9, 16, 25]) d = ?f"
    unfolding gaussian_diag_log_density_eq[OF pos] sum_1_5
    by (simp add: d sum_lt_5)
  with val r len show ?thesis by simp
qed


theorem analytic_log_likelihood_gaussian_witness:
  "analytic_log_likelihood [1, 4, 9, 16, 25] [1] [1] =
     Inr [Some (- (5 / 2) * ln (2 * pi) - (1 / 2) * (\<Sum>k = 1..5. ln ((real k)\<^sup>2)))]"
proof -
  have h1: "length [1, 4, 9, 16, 25 :: real] = 5" by simp
  have h2: "length [1 :: real] = length [1 :: real]" by simp
  have h3: "0 < length [1 :: real]" by simp
  have h4: "[1 :: real] ! 0 \<noteq> 0" by simp
  from analytic_log_likelihood_gaussian [OF h1 h2 h3 h4]
  obtain r where r: "analytic_log_likelihood [1, 4, 9, 16, 25] [1] [1] = Inr r"
    and len: "length r = length [1 :: real]"
    and val: "r ! 0 = Some (- (5 / 2) * ln (2 * pi)
                         - (1 / 2) * (\<Sum>k = 1..5. ln ((real k)\<^sup>2 * ([1] ! 0)\<^sup>2))
                         - (1 / 2) * (\<Sum>k = 1..5. ([1, 4, 9, 16, 25] ! (k - 1) - (real k)\<^sup>2 * [1] ! 0)\<^sup>2
                                                       / ((real k)\<^sup>2 * ([1] ! 0)\<^sup>2)))"
    by blast
  from len obtain v where rv: "r = [v]" by (cases r) simp_all
  have "(\<Sum>k = 1..5. ([1, 4, 9, 16, 25] ! (k - 1) - (real k)\<^sup>2 * [1] ! 0)\<^sup>2
                                                       / ((real k)\<^sup>2 * ([1] ! 0)\<^sup>2)) = (0::real)"
    unfolding sum_1_5 by simp
  with val rv have "v = Some (- (5 / 2) * ln (2 * pi) - (1 / 2) * (\<Sum>k = 1..5. ln ((real k)\<^sup>2)))"
    by simp
  with r rv show ?thesis by simp
qed


section \<open>The prior and the total distribution of the kernel density notebook\<close>

text \<open>
  Claim C9. For an array \<open>y\<close> of shape \<open>(N, 1)\<close>, \<open>log_prior y\<close> is the flat array of the \<open>N\<close>
  values \<open>- y\<^sub>i\<^sup>2 / 4\<close>. Each is the logarithm of the density of the normal distribution
  with mean \<open>0\<close> and variance \<open>2\<close> without its additive constant \<open>-(1/2) ln (4 pi)\<close>, which is
  not zero. \<open>total_distribution\<close> adds this prior to what \<open>score_samples\<close> returns for the
  rows \<open>[1.0, y\<^sub>i]\<close> and the conditioning feature \<open>y\<close>.
\<close>

theorem log_prior_unnormalised:
  assumes "\<forall>row\<in>set y. length row = 1"
  shows "length (log_prior y) = length y
       \<and> (\<forall>i<length y. log_prior y ! i = - (y ! i ! 0)\<^sup>2 / 4
              \<and> log_prior y ! i = normal_log_density 0 (sqrt 2) (y ! i ! 0) - (- (1 / 2) * ln (4 * pi)))
       \<and> - (1 / 2) * ln (4 * pi) \<noteq> 0
       \<and> total_distribution score_samples y =
           (case score_samples (map (\<lambda>row. [1, row ! 0]) y) [''y''] of
              Inl e \<Rightarrow> Inl e
            | Inr likelihood \<Rightarrow> broadcast fadd (map Some (log_prior y)) likelihood)"
proof (intro conjI allI impI)
  have lp: "log_prior y = map (\<lambda>row. - (row ! 0)\<^sup>2 / 4) y"
    unfolding log_prior_def using assms by (rule concat_singletons)
  show "length (log_prior y) = length y" by (simp add: lp)
  show "- (1 / 2) * ln (4 * pi) \<noteq> 0" using ln_4pi_pos by simp
  show "total_distribution score_samples y =
           (case score_samples (map (\<lambda>row. [1, row ! 0]) y) [''y''] of
              Inl e \<Rightarrow> Inl e
            | Inr likelihood \<Rightarrow> broadcast fadd (map Some (log_prior y)) likelihood)"
    unfolding total_distribution_def Let_def log_likelihood_column[OF assms] ..
  fix i assume i: "i < length y"
  then show "log_prior y ! i = - (y ! i ! 0)\<^sup>2 / 4" by (simp add: lp)
  have "normal_log_density 0 (sqrt 2) (y ! i ! 0) =
          - (1 / 2) * ln (4 * pi) - (y ! i ! 0)\<^sup>2 / 4"
    by (simp add: normal_log_density_eq)
  then show "log_prior y ! i = normal_log_density 0 (sqrt 2) (y ! i ! 0) - (- (1 / 2) * ln (4 * pi))"
    using i by (simp add: lp)
qed

theorem log_prior_unnormalised_witness:
  "log_prior [[2], [0]] = [- 1, 0]
   \<and> total_distribution (\<lambda>points features. Inr (map (\<lambda>row. Some (row ! 0 + row ! 1)) points)) [[2], [0]]
       = Inr [Some 2, Some 1]"
proof -
  let ?score = "\<lambda>(points :: real list list) (features :: string list).
                  (Inr (map (\<lambda>row. Some (row ! 0 + row ! 1)) points) :: error + npfloat list)"
  have h: "\<forall>row\<in>set [[2], [0 :: real]]. length row = 1" by simp
  note t = log_prior_unnormalised [OF h, of ?score]
  from t have len: "length (log_prior [[2], [0]]) = length [[2], [0 :: real]]" by blast
  from t have v0: "log_prior [[2], [0]] ! 0 = - ([[2], [0]] ! 0 ! 0)\<^sup>2 / 4" by simp
  from t have v1: "log_prior [[2], [0]] ! 1 = - ([[2], [0]] ! 1 ! 0)\<^sup>2 / 4" by simp
  from len obtain a b where ab: "log_prior [[2], [0]] = [a, b]"
    by (cases "log_prior [[2], [0]]"; cases "tl (log_prior [[2], [0]])") auto
  with v0 v1 have lp: "log_prior [[2], [0]] = [- 1, 0]" by simp
  from t have "total_distribution ?score [[2], [0]] =
           (case ?score (map (\<lambda>row. [1, row ! 0]) [[2], [0]]) [''y''] of
              Inl e \<Rightarrow> Inl e
            | Inr likelihood \<Rightarrow> broadcast fadd (map Some (log_prior [[2], [0]])) likelihood)"
    by blast
  then have "total_distribution ?score [[2], [0]] = Inr [Some 2, Some 1]"
    unfolding lp by (simp add: broadcast_def fadd_def)
  with lp show ?thesis by simp
qed

section \<open>The prior term of the nested-sampling callbacks\<close>

text \<open>
  Claim C10. For every \<open>x\<close>, \<open>mu\<close> and \<open>sigma > 0\<close>, \<open>log_gauss x mu sigma\<close> is the finite value
  \<open>-(1/2) ln (2 pi sigma) - (1/2) (x - mu)\<^sup>2 / sigma\<^sup>2\<close>, and it is the logarithm of the
  density of the normal distribution with mean \<open>mu\<close> and variance \<open>sigma\<^sup>2\<close> exactly when
  \<open>sigma = 1\<close>. Both posterior callbacks call \<open>log_gauss\<close> with \<open>sigma = 1\<close> only, so each
  returns what it would return with the logarithm of the normal density as its prior term.
\<close>

theorem log_gauss_normal_only_at_unit_sigma:
  "(0 < sigma \<longrightarrow>
      log_gauss x mu sigma =
        Some (- (1 / 2) * ln (2 * pi * sigma) - (1 / 2) * (x - mu)\<^sup>2 / sigma\<^sup>2))
   \<and> (0 < sigma \<longrightarrow>
      (log_gauss x mu sigma = Some (normal_log_density mu sigma x)) = (sigma = 1))
   \<and> ultranest_NDE_posterior log_prob mock_measurement p =
       (case NDE_likelihood log_prob mock_measurement p of
          Inl e \<Rightarrow> Inl e
        | Inr likelihood \<Rightarrow>
            broadcast fadd (map (\<lambda>mu. Some (normal_log_density mu 1 0)) (map fst p)) likelihood)
   \<and> ultranest_analytic_posterior mock_measurement p =
       (case analytic_likelihood mock_measurement p of
          Inl e \<Rightarrow> Inl e
        | Inr likelihood \<Rightarrow>
            broadcast fadd (map (\<lambda>mu. Some (normal_log_density mu 1 0)) (map fst p)) likelihood)"
proof (intro conjI impI)
  assume "0 < sigma"
  then show "log_gauss x mu sigma =
        Some (- (1 / 2) * ln (2 * pi * sigma) - (1 / 2) * (x - mu)\<^sup>2 / sigma\<^sup>2)"
    by (rule log_gauss_eq)
next
  assume "0 < sigma"
  then show "(log_gauss x mu sigma = Some (normal_log_density mu sigma x)) = (sigma = 1)"
    by (rule log_gauss_normal_iff)
next
  show "ultranest_NDE_posterior log_prob mock_measurement p =
       (case NDE_likelihood log_prob mock_measurement p of
          Inl e \<Rightarrow> Inl e
        | Inr likelihood \<Rightarrow>
            broadcast fadd (map (\<lambda>mu. Some (normal_log_density mu 1 0)) (map fst p)) likelihood)"
    unfolding ultranest_NDE_posterior_def Let_def log_gauss_unit ..
next
  show "ultranest_analytic_posterior mock_measurement p =
       (case analytic_likelihood mock_measurement p of
          Inl e \<Rightarrow> Inl e
        | Inr likelihood \<Rightarrow>
            broadcast fadd (map (\<lambda>mu. Some (normal_log_density mu 1 0)) (map fst p)) likelihood)"
    unfolding ultranest_analytic_posterior_def Let_def log_gauss_unit ..
qed

theorem log_gauss_normal_only_at_unit_sigma_witness:
  "log_gauss 0 0 1 = Some (- (1 / 2) * ln (2 * pi * 1) - (1 / 2) * (0 - 0)\<^sup>2 / 1\<^sup>2) \<and>
   log_gauss 0 0 1 = Some (normal_log_density 0 1 0)"
proof -
  note t = log_gauss_normal_only_at_unit_sigma [of 1 0 0 "\<lambda>mock p. Inr [Some 0]" "[]" "[]"]
  have pos: "(0::real) < 1" by simp
  from t pos
  have a: "log_gauss 0 0 1 = Some (- (1 / 2) * ln (2 * pi * 1) - (1 / 2) * (0 - 0)\<^sup>2 / 1\<^sup>2)"
    by blast
  from t pos have "(log_gauss 0 0 1 = Some (normal_log_density 0 1 0)) = ((1::real) = 1)"
    by blast
  then have b: "log_gauss 0 0 1 = Some (normal_log_density 0 1 0)" by simp
  from a b show ?thesis by (rule conjI)
qed

end
